theory Spec2Isabelle
  imports Main "HOL-Library.AList"
begin

section \<open>Values\<close>

text \<open>
  The server of \<^verbatim>\<open>src/index.js\<close> keeps two registries (\<^verbatim>\<open>docs\<close>, \<^verbatim>\<open>locked\<close>),
  the list of connected sockets (\<^verbatim>\<open>wss.clients\<close>) and, per connection, a duplex stream
  handed to the synchronization engine. The handlers run to completion one at a time on
  the event loop, so each handler is a function from the state to the next state.

  A parsed JSON text is a value of type \<open>json\<close>. A JavaScript value that may be
  \<^verbatim>\<open>undefined\<close> is a \<open>json option\<close>, with \<open>None\<close> for \<^verbatim>\<open>undefined\<close>.
  Numbers are the integers. An object is the list of its own properties in insertion order.
\<close>

datatype json =
    JNull
  | JBool bool
  | JNum int
  | JStr string
  | JArr "json list"
  | JObj "(string \<times> json) list"

text \<open>A property read \<^verbatim>\<open>v.k\<close> on a value that is not \<^verbatim>\<open>null\<close>: only objects have
  properties called \<^verbatim>\<open>registration\<close>, \<^verbatim>\<open>docId\<close>, \<^verbatim>\<open>userId\<close>, ...\<close>

fun get :: "json \<Rightarrow> string \<Rightarrow> json option" where
  "get (JObj kvs) k = map_of kvs k"
| "get _ k = None"

text \<open>JavaScript truthiness, as tested by \<^verbatim>\<open>if (v)\<close>, \<^verbatim>\<open>!v\<close> and \<^verbatim>\<open>v && ...\<close>.\<close>

fun truthy :: "json option \<Rightarrow> bool" where
  "truthy None = False"
| "truthy (Some JNull) = False"
| "truthy (Some (JBool b)) = b"
| "truthy (Some (JNum n)) = (n \<noteq> 0)"
| "truthy (Some (JStr s)) = (s \<noteq> [])"
| "truthy (Some (JArr xs)) = True"
| "truthy (Some (JObj kvs)) = True"

text \<open>
  \<^verbatim>\<open>docs[docId]\<close> and \<^verbatim>\<open>locked[docId]\<close> turn the subscript into a property name
  (a string), while \<^verbatim>\<open>===\<close> in \<^verbatim>\<open>wss.broadcast\<close> compares the values themselves. So
  \<^verbatim>\<open>undefined\<close> and the string \<^verbatim>\<open>"undefined"\<close> name the same registry entry and are
  different broadcast targets. \<open>to_key\<close> is that conversion; \<^verbatim>\<open>===\<close> is the equality of
  \<open>json option\<close>.

  Scope of the value model: identifiers are the strings the clients send, or absent,
  \<^verbatim>\<open>null\<close>, booleans or integers below \<open>10^21\<close> in magnitude. For an array or an object
  used as an identifier JavaScript compares references and may call a \<^verbatim>\<open>toString\<close>
  of the object's own; such identifiers are outside the model.
\<close>

function dec :: "nat \<Rightarrow> string" where
  "dec n = (if n < 10 then [''0123456789'' ! n]
            else dec (n div 10) @ [''0123456789'' ! (n mod 10)])"
  by pat_completeness auto
termination
  by (relation "measure id") auto

fun join :: "string list \<Rightarrow> string" where
  "join [] = []"
| "join [x] = x"
| "join (x # y # zs) = x @ '','' @ join (y # zs)"

fun to_string :: "json \<Rightarrow> string" where
  "to_string JNull = ''null''"
| "to_string (JBool b) = (if b then ''true'' else ''false'')"
| "to_string (JNum n) = (if n < 0 then CHR ''-'' # dec (nat (- n)) else dec (nat n))"
| "to_string (JStr s) = s"
| "to_string (JArr xs) = join (map (\<lambda>x. case x of JNull \<Rightarrow> [] | _ \<Rightarrow> to_string x) xs)"
| "to_string (JObj kvs) = ''[object Object]''"

fun to_key :: "json option \<Rightarrow> string" where
  "to_key None = ''undefined''"
| "to_key (Some v) = to_string v"

section \<open>Plain objects and inherited properties\<close>

text \<open>
  \<^verbatim>\<open>docs\<close>, \<^verbatim>\<open>locked\<close> and every user map \<^verbatim>\<open>docs[docId]\<close> are plain objects
  (\<^verbatim>\<open>{}\<close>), read with \<^verbatim>\<open>obj[k]\<close>. Such a read finds the object's own property
  first and the properties of \<^verbatim>\<open>Object.prototype\<close> after it. Those are functions, and
  \<^verbatim>\<open>__proto__\<close> reads as \<^verbatim>\<open>Object.prototype\<close> itself: all of them are truthy.
\<close>

definition inherited :: "string \<Rightarrow> bool" where
  "inherited k =
     (k \<in> set [''constructor'', ''toString'', ''toLocaleString'', ''valueOf'',
               ''hasOwnProperty'', ''isPrototypeOf'', ''propertyIsEnumerable'',
               ''__defineGetter__'', ''__defineSetter__'', ''__lookupGetter__'',
               ''__lookupSetter__'', ''__proto__''])"

text \<open>The test \<^verbatim>\<open>obj[k]\<close> (or \<^verbatim>\<open>!obj[k]\<close>) on a plain object whose own properties
  hold objects.\<close>

definition has :: "(string \<times> 'a) list \<Rightarrow> string \<Rightarrow> bool" where
  "has obj k = (inherited k \<or> map_of obj k \<noteq> None)"

text \<open>The test \<^verbatim>\<open>locked[k]\<close>; the own properties of \<^verbatim>\<open>locked\<close> hold \<^verbatim>\<open>true\<close> and
  are kept as the set of their names.\<close>

definition is_locked :: "string set \<Rightarrow> string \<Rightarrow> bool" where
  "is_locked own k = (k \<in> own \<or> inherited k)"

section \<open>Presence registry\<close>

text \<open>One entry of \<^verbatim>\<open>docs[docId][userId]\<close> (lines 175-180).\<close>

record presence =
  name :: "json option"
  url :: "json option"
  count :: int
  gravatar :: "json option"

type_synonym users = "(string \<times> presence) list"
type_synonym registry = "(string \<times> users) list"

text \<open>
  Lines 169-183, the registration branch's update of \<^verbatim>\<open>docs\<close>.

  Line 169 creates the document's map unless \<^verbatim>\<open>docs[docId]\<close> is truthy. Where
  \<^verbatim>\<open>docId\<close> names an inherited property and no own one, \<^verbatim>\<open>docs[docId]\<close> is a
  built-in object: lines 174-183 then read and write that object and \<^verbatim>\<open>docs\<close>
  stays as it is.

  Line 174 creates the user's record unless \<^verbatim>\<open>docs[docId][userId]\<close> is truthy. Where
  \<^verbatim>\<open>userId\<close> names an inherited property and no own one, the \<^verbatim>\<open>else\<close> branch runs
  \<^verbatim>\<open>count++\<close> on the built-in object (its \<^verbatim>\<open>count\<close> becomes \<^verbatim>\<open>NaN\<close>) and the
  user map gets no record. That \<^verbatim>\<open>NaN\<close> is falsy and is an own property of no registry
  object, so no test and no frame of the handlers sees it. The source has no
  \<^verbatim>\<open>'use strict'\<close>: a write to a property of a string or a number, or to a property
  that is not writable, is ignored.
\<close>

definition register :: "string \<Rightarrow> string \<Rightarrow> json \<Rightarrow> registry \<Rightarrow> registry" where
  "register docId userId data ds =
     (let ds1 = (if \<not> has ds docId then AList.update docId [] ds else ds) in
      case map_of ds1 docId of
        None \<Rightarrow> ds1
      | Some us \<Rightarrow>
          if \<not> has us userId then
            AList.update docId
              (AList.update userId
                 \<lparr>name = get data ''userName'', url = get data ''userUrl'',
                  count = 1, gravatar = get data ''userGravatar''\<rparr> us) ds1
          else
            (case map_of us userId of
               None \<Rightarrow> ds1
             | Some r \<Rightarrow> AList.update docId (AList.update userId (r\<lparr>count := count r + 1\<rparr>) us) ds1))"

text \<open>
  Lines 216-225, the close handler's update of \<^verbatim>\<open>docs\<close>. The test of line 216 is
  truthy for inherited names too. Where \<^verbatim>\<open>docs[docId]\<close> is a built-in object the block
  works on that object and the \<^verbatim>\<open>delete docs[docId]\<close> of line 222 finds no own property.
  Where \<^verbatim>\<open>docs[docId][userId]\<close> is a built-in object, \<^verbatim>\<open>count--\<close> makes its
  \<^verbatim>\<open>count\<close> \<^verbatim>\<open>NaN\<close>, which is not \<^verbatim>\<open>=== 0\<close>, and nothing is deleted.
\<close>

definition release :: "string \<Rightarrow> string \<Rightarrow> registry \<Rightarrow> registry" where
  "release docId userId ds =
     (if has ds docId then
        (case map_of ds docId of
           None \<Rightarrow> ds
         | Some us \<Rightarrow>
             if has us userId then
               (case map_of us userId of
                  None \<Rightarrow> ds
                | Some r \<Rightarrow>
                    (let r' = r\<lparr>count := count r - 1\<rparr> in
                     if count r' = 0 then
                       (let us' = AList.delete userId us in
                        if length (map fst us') = 0 then AList.delete docId ds
                        else AList.update docId us' ds)
                     else AList.update docId (AList.update userId r' us) ds))
             else ds)
      else ds)"

text \<open>
  Where \<^verbatim>\<open>docs[docId]\<close> is a built-in function, what lines 174-183 and 216-225 do to
  it shows in no frame (\<^verbatim>\<open>JSON.stringify\<close> leaves a function-valued \<^verbatim>\<open>users\<close> out)
  and in no later test on \<^verbatim>\<open>docs\<close> or \<^verbatim>\<open>locked\<close>. Two cases are beyond this model
  and the handlers report them as \<open>Unmodelled\<close>: for \<^verbatim>\<open>__proto__\<close> the block writes
  to \<^verbatim>\<open>Object.prototype\<close>, which changes what every object of the process inherits;
  and \<^verbatim>\<open>caller\<close> and \<^verbatim>\<open>arguments\<close> are accessors on a built-in function, whose read
  may throw.
\<close>

definition beyond :: "string \<Rightarrow> string \<Rightarrow> registry \<Rightarrow> bool" where
  "beyond docId userId ds =
     (map_of ds docId = None \<and>
      (docId = ''__proto__'' \<or> inherited docId \<and> userId \<in> {''caller'', ''arguments''}))"

text \<open>The own record of a pair.\<close>

definition lookup :: "registry \<Rightarrow> string \<Rightarrow> string \<Rightarrow> presence option" where
  "lookup ds docId userId =
     (case map_of ds docId of None \<Rightarrow> None | Some us \<Rightarrow> map_of us userId)"

section \<open>Sockets, frames and the server state\<close>

text \<open>A frame is the text handed to \<^verbatim>\<open>client.send\<close>, represented by the value that
  \<^verbatim>\<open>JSON.stringify\<close> is applied to. \<^verbatim>\<open>users: undefined\<close> is \<open>Meta None\<close>.\<close>

datatype frame =
    Lock
  | Unlock "json option"
  | Meta "users option"
  | Chunk json

text \<open>What a handler throws; \<open>Unmodelled\<close> marks the two cases that are beyond the
  model.\<close>

datatype exn = ReferenceError | TypeError | SendError | Unmodelled

text \<open>
  A socket with the stream created for it at line 132. \<open>state\<close> is what
  \<^verbatim>\<open>client.state\<close> reads, which no line of the source assigns. \<open>sendThrows\<close> says
  whether the library's \<^verbatim>\<open>client.send\<close> throws at present, as it does on a socket that
  is not open; \<open>sendCalls\<close> records every frame passed
  to \<^verbatim>\<open>client.send\<close> and \<open>wire\<close> those that went out. \<open>pushed\<close> is what
  \<^verbatim>\<open>stream.push\<close> was given (\<^verbatim>\<open>null\<close> is the end-of-stream mark), \<open>closeEmitted\<close>
  counts \<^verbatim>\<open>stream.emit('close')\<close> and \<open>writeCallbacks\<close> the calls of \<^verbatim>\<open>_write\<close>'s
  callback.
\<close>

record client =
  userMeta :: "json option"
  state :: "string option"
  sendThrows :: bool
  sendCalls :: "frame list"
  wire :: "frame list"
  pushed :: "json list"
  closeEmitted :: nat
  writeCallbacks :: nat

type_synonym cid = nat

text \<open>The state of the process. Sockets are objects: \<open>sockets\<close> is the store that
  maps a socket's identity to its fields and \<open>clients\<close> is \<^verbatim>\<open>wss.clients\<close>, the
  identities of the connected sockets, each of them once.\<close>

record server =
  docs :: registry
  locked :: "string set"
  clients :: "cid list"
  sockets :: "cid \<Rightarrow> client"

definition client_send :: "frame \<Rightarrow> client \<Rightarrow> exn option \<times> client" where
  "client_send m c =
     (if sendThrows c then (Some SendError, c\<lparr>sendCalls := sendCalls c @ [m]\<rparr>)
      else (None, c\<lparr>sendCalls := sendCalls c @ [m], wire := wire c @ [m]\<rparr>))"

text \<open>\<^verbatim>\<open>async.each\<close> over an array: the iteratee runs on each element in turn; an
  exception it throws ends the loop and reaches the caller.\<close>

fun each :: "('a \<Rightarrow> 's \<Rightarrow> exn option \<times> 's) \<Rightarrow> 'a list \<Rightarrow> 's \<Rightarrow> exn option \<times> 's" where
  "each f [] s = (None, s)"
| "each f (x # xs) s =
     (case f x s of (Some e, s') \<Rightarrow> (Some e, s') | (None, s') \<Rightarrow> each f xs s')"

text \<open>Line 119: \<^verbatim>\<open>client.userMeta && client.userMeta.docId === docId\<close>.\<close>

definition attached :: "json option \<Rightarrow> client \<Rightarrow> bool" where
  "attached docId c =
     (case userMeta c of None \<Rightarrow> False
      | Some um \<Rightarrow> truthy (Some um) \<and> get um ''docId'' = docId)"

text \<open>Lines 117-129, \<^verbatim>\<open>wss.broadcast\<close>.\<close>

definition broadcast_one :: "json option \<Rightarrow> frame \<Rightarrow> cid \<Rightarrow> server \<Rightarrow> exn option \<times> server" where
  "broadcast_one docId message c st =
     (let client = sockets st c in
      if attached docId client then
        (case client_send message client of
           (e, client') \<Rightarrow> (None, st\<lparr>sockets := (sockets st)(c := client')\<rparr>))
      else (None, st))"

definition broadcast :: "json option \<Rightarrow> frame \<Rightarrow> server \<Rightarrow> exn option \<times> server" where
  "broadcast docId message st = each (broadcast_one docId message) (clients st) st"

text \<open>Lines 135-144, \<^verbatim>\<open>stream._write\<close> of the connection \<open>c\<close>; the serialized chunk
  is the frame \<open>Chunk chunk\<close>.\<close>

definition stream_write :: "cid \<Rightarrow> json \<Rightarrow> server \<Rightarrow> exn option \<times> server" where
  "stream_write c chunk st =
     (let client = sockets st c;
          client1 = (if state client \<noteq> Some ''closed''
                     then snd (client_send (Chunk chunk) client) else client)
      in (None, st\<lparr>sockets := (sockets st)
                      (c := client1\<lparr>writeCallbacks := Suc (writeCallbacks client1)\<rparr>)\<rparr>))"

section \<open>The message handler\<close>

text \<open>\<^verbatim>\<open>client.userMeta.docId\<close> and \<^verbatim>\<open>client.userMeta.userId\<close>, read where
  \<^verbatim>\<open>client.userMeta\<close> is truthy.\<close>

definition meta_docId :: "client \<Rightarrow> json option" where
  "meta_docId c = (case userMeta c of None \<Rightarrow> None | Some um \<Rightarrow> get um ''docId'')"

definition meta_userId :: "client \<Rightarrow> json option" where
  "meta_userId c = (case userMeta c of None \<Rightarrow> None | Some um \<Rightarrow> get um ''userId'')"

text \<open>Line 150: \<^verbatim>\<open>client.userMeta && locked[client.userMeta.docId]\<close>.\<close>

definition lock_check :: "client \<Rightarrow> server \<Rightarrow> bool" where
  "lock_check c st = (truthy (userMeta c) \<and> is_locked (locked st) (to_key (meta_docId c)))"

text \<open>Lines 163-199, the registration branch. In the frame of line 187
  \<^verbatim>\<open>users\<close> is the document's own map, and is left out where \<^verbatim>\<open>docs[docId]\<close> is a
  built-in function.\<close>

definition on_registration :: "cid \<Rightarrow> json \<Rightarrow> server \<Rightarrow> exn option \<times> server" where
  "on_registration c data st =
     (let docId = get data ''docId'';
          userId = get data ''userId''
      in
      if beyond (to_key docId) (to_key userId) (docs st) then (Some Unmodelled, st)
      else
       (let st1 = st\<lparr>docs := register (to_key docId) (to_key userId) data (docs st)\<rparr>;
            st2 = st1\<lparr>sockets := (sockets st1)(c := (sockets st1 c)\<lparr>userMeta := Some data\<rparr>)\<rparr>
        in case broadcast docId (Meta (map_of (docs st2) (to_key docId))) st2 of
             (Some e, st3) \<Rightarrow> (Some e, st3)
           | (None, st3) \<Rightarrow>
               if is_locked (locked st3) (to_key docId)
               then (None, st3\<lparr>sockets := (sockets st3)
                                  (c := snd (client_send Lock (sockets st3 c)))\<rparr>)
               else (None, st3)))"

definition stream_push :: "cid \<Rightarrow> json \<Rightarrow> server \<Rightarrow> server" where
  "stream_push c v st =
     st\<lparr>sockets := (sockets st)(c := (sockets st c)\<lparr>pushed := pushed (sockets st c) @ [v]\<rparr>)\<rparr>"

text \<open>
  Lines 149-203. The payload is given by what \<^verbatim>\<open>JSON.parse\<close> makes of it: \<open>None\<close> when
  it throws. In the \<^verbatim>\<open>catch\<close> block the argument \<^verbatim>\<open>{message: message}\<close> reads a
  variable that is not declared anywhere, which throws a ReferenceError out of the handler.
  For the payload \<^verbatim>\<open>null\<close> the read \<^verbatim>\<open>data.registration\<close> throws a TypeError.
\<close>

definition on_message :: "cid \<Rightarrow> json option \<Rightarrow> server \<Rightarrow> exn option \<times> server" where
  "on_message c payload st =
     (let client = sockets st c in
      if lock_check client st then broadcast (meta_docId client) Lock st
      else
        (case payload of
           None \<Rightarrow> (Some ReferenceError, st)
         | Some data \<Rightarrow>
             if data = JNull then (Some TypeError, st)
             else if truthy (get data ''registration'') then on_registration c data st
             else (None, stream_push c data st)))"

section \<open>The close handler\<close>

text \<open>Lines 230-231: \<^verbatim>\<open>stream.push(null); stream.emit('close')\<close>.\<close>

definition end_stream :: "cid \<Rightarrow> server \<Rightarrow> server" where
  "end_stream c st =
     (let st1 = stream_push c JNull st in
      st1\<lparr>sockets := (sockets st1)
             (c := (sockets st1 c)\<lparr>closeEmitted := Suc (closeEmitted (sockets st1 c))\<rparr>)\<rparr>)"

text \<open>Lines 205-232.\<close>

definition on_close :: "cid \<Rightarrow> server \<Rightarrow> exn option \<times> server" where
  "on_close c st =
     (let client = sockets st c in
      case (if truthy (userMeta client) then
              (let docId = meta_docId client;
                   userId = meta_userId client
               in
               if beyond (to_key docId) (to_key userId) (docs st) then (Some Unmodelled, st)
               else
                (let st1 = st\<lparr>docs := release (to_key docId) (to_key userId) (docs st)\<rparr>
                 in broadcast docId (Meta (map_of (docs st1) (to_key docId))) st1))
            else (None, st)) of
        (Some e, st2) \<Rightarrow> (Some e, st2)
      | (None, st2) \<Rightarrow> (None, end_stream c st2))"

section \<open>The lock endpoints\<close>

text \<open>Lines 258-263 and 266-274; \<^verbatim>\<open>req.params.id\<close> is a string. The assignment
  \<^verbatim>\<open>locked['__proto__'] = true\<close> goes to the setter of \<^verbatim>\<open>Object.prototype\<close>, which
  ignores a value that is not an object: no own property is made.\<close>

definition lock_doc :: "string \<Rightarrow> server \<Rightarrow> exn option \<times> server" where
  "lock_doc ident st =
     broadcast (Some (JStr ident)) Lock
       (st\<lparr>locked := (if ident = ''__proto__'' then locked st else insert ident (locked st))\<rparr>)"

definition unlock_doc :: "string \<Rightarrow> json option \<Rightarrow> server \<Rightarrow> exn option \<times> server" where
  "unlock_doc ident body st =
     broadcast (Some (JStr ident)) (Unlock body) (st\<lparr>locked := locked st - {ident}\<rparr>)"

section \<open>Connections and scenarios\<close>

text \<open>Lines 93-94: both registries start empty. Lines 131-147: a new connection gets its
  stream; the library has put the socket into \<^verbatim>\<open>wss.clients\<close>.\<close>

definition new_client :: client where
  "new_client = \<lparr>userMeta = None, state = None, sendThrows = False, sendCalls = [],
                 wire = [], pushed = [], closeEmitted = 0, writeCallbacks = 0\<rparr>"

definition init :: server where
  "init = \<lparr>docs = [], locked = {}, clients = [], sockets = (\<lambda>c. new_client)\<rparr>"

definition connect :: "cid \<Rightarrow> server \<Rightarrow> server" where
  "connect c st = st\<lparr>clients := clients st @ [c], sockets := (sockets st)(c := new_client)\<rparr>"

text \<open>The registration message of a user on a document, as the client library sends it.\<close>

definition registration :: "string \<Rightarrow> string \<Rightarrow> json" where
  "registration d u =
     JObj [(''registration'', JBool True), (''docId'', JStr d), (''userId'', JStr u)]"

text \<open>Running handlers one after the other; a handler that throws ends the run.\<close>

fun handlers :: "(server \<Rightarrow> exn option \<times> server) list \<Rightarrow> server \<Rightarrow> exn option \<times> server" where
  "handlers [] st = (None, st)"
| "handlers (h # hs) st =
     (case h st of (Some e, st') \<Rightarrow> (Some e, st') | (None, st') \<Rightarrow> handlers hs st')"

text \<open>A socket stops being open: from now on its \<^verbatim>\<open>send\<close> throws.\<close>

definition send_fails :: "cid \<Rightarrow> server \<Rightarrow> server" where
  "send_fails c st = st\<lparr>sockets := (sockets st)(c := (sockets st c)\<lparr>sendThrows := True\<rparr>)\<rparr>"

text \<open>An edit operation, as a client sends it to the synchronization engine.\<close>

definition edit :: json where
  "edit = JObj [(''a'', JStr ''op''), (''v'', JNum 1)]"

text \<open>User A on document d1, one tab.\<close>

definition one_tab :: server where
  "one_tab = snd (on_message 0 (Some (registration ''d1'' ''A'')) (connect 0 init))"


text \<open>Users A and B on d1, user C on d2, a fourth socket that has not registered; the
  socket of B is no longer open and its \<^verbatim>\<open>send\<close> throws.\<close>

definition four_sockets :: server where
  "four_sockets =
     send_fails 1
       (snd (handlers [on_message 0 (Some (registration ''d1'' ''A'')),
                       on_message 1 (Some (registration ''d1'' ''B'')),
                       on_message 2 (Some (registration ''d2'' ''C''))]
               (connect 3 (connect 2 (connect 1 (connect 0 init))))))"



text \<open>A user whose id is the name of an inherited property registers on d1.\<close>

definition ghost_user :: server where
  "ghost_user =
     snd (on_message 0 (Some (registration ''d1'' ''constructor'')) (connect 0 init))"

text \<open>User A registers on a document whose id is the name of an inherited property;
  nothing is ever locked.\<close>

definition ghost_lock :: server where
  "ghost_lock =
     snd (on_message 0 (Some (registration ''constructor'' ''A'')) (connect 0 init))"


section \<open>The registry under register and release\<close>



lemma has_own: "\<not> inherited k \<Longrightarrow> has obj k \<longleftrightarrow> map_of obj k \<noteq> None"
  by (simp add: has_def)










section \<open>Broadcast\<close>

lemma attached_iff: "attached d c \<longleftrightarrow> truthy (userMeta c) \<and> meta_docId c = d"
  by (auto simp: attached_def meta_docId_def split: option.splits)

lemma client_send_fields [simp]:
  "userMeta (snd (client_send m c)) = userMeta c"
  "state (snd (client_send m c)) = state c"
  "sendThrows (snd (client_send m c)) = sendThrows c"
  "pushed (snd (client_send m c)) = pushed c"
  "closeEmitted (snd (client_send m c)) = closeEmitted c"
  "writeCallbacks (snd (client_send m c)) = writeCallbacks c"
  "sendCalls (snd (client_send m c)) = sendCalls c @ [m]"
  "wire (snd (client_send m c)) = (if sendThrows c then wire c else wire c @ [m])"
  by (simp_all add: client_send_def)

lemma broadcast_one_eq:
  "broadcast_one d m c st =
     (None, st\<lparr>sockets := (sockets st)
                  (c := if attached d (sockets st c) then snd (client_send m (sockets st c))
                        else sockets st c)\<rparr>)"
  by (simp add: broadcast_one_def Let_def split: prod.splits)

lemma each_broadcast:
  "distinct cs \<Longrightarrow>
   each (broadcast_one d m) cs st =
     (None, st\<lparr>sockets := (\<lambda>c. if c \<in> set cs \<and> attached d (sockets st c)
                                 then snd (client_send m (sockets st c)) else sockets st c)\<rparr>)"
proof (induction cs arbitrary: st)
  case Nil
  then show ?case by simp
next
  case (Cons x xs)
  let ?st1 = "st\<lparr>sockets := (sockets st)
                  (x := if attached d (sockets st x) then snd (client_send m (sockets st x))
                        else sockets st x)\<rparr>"
  from Cons.prems have x: "x \<notin> set xs" and d: "distinct xs" by simp_all
  have "each (broadcast_one d m) (x # xs) st = each (broadcast_one d m) xs ?st1"
    by (simp add: broadcast_one_eq)
  also have "\<dots> = (None, ?st1\<lparr>sockets := (\<lambda>c. if c \<in> set xs \<and> attached d (sockets ?st1 c)
                                 then snd (client_send m (sockets ?st1 c)) else sockets ?st1 c)\<rparr>)"
    by (rule Cons.IH [OF d])
  also have "(\<lambda>c. if c \<in> set xs \<and> attached d (sockets ?st1 c)
                                 then snd (client_send m (sockets ?st1 c)) else sockets ?st1 c)
      = (\<lambda>c. if c \<in> set (x # xs) \<and> attached d (sockets st c)
                                 then snd (client_send m (sockets st c)) else sockets st c)"
    using x by (auto simp: fun_eq_iff)
  finally show ?case by simp
qed

lemma broadcast_eq:
  "distinct (clients st) \<Longrightarrow>
   broadcast d m st =
     (None, st\<lparr>sockets := (\<lambda>c. if c \<in> set (clients st) \<and> attached d (sockets st c)
                                 then snd (client_send m (sockets st c)) else sockets st c)\<rparr>)"
  by (simp add: broadcast_def each_broadcast)

lemma each_preserve:
  "(\<And>x s. P s \<Longrightarrow> P (snd (f x s))) \<Longrightarrow> P s \<Longrightarrow> P (snd (each f xs s))"
proof (induction xs arbitrary: s)
  case Nil
  then show ?case by simp
next
  case (Cons x xs)
  have "P (snd (f x s))" using Cons.prems by blast
  then show ?case
    using Cons.IH [of "snd (f x s)"] Cons.prems(1)
    by (cases "f x s") (auto split: option.splits)
qed

lemma each_no_throw:
  "(\<And>x s. fst (f x s) = None) \<Longrightarrow> fst (each f xs s) = None"
proof (induction xs arbitrary: s)
  case Nil
  then show ?case by simp
next
  case (Cons x xs)
  have "fst (f x s) = None" by (rule Cons.prems)
  then show ?case using Cons.IH [OF Cons.prems, of "snd (f x s)"]
    by (cases "f x s") auto
qed

lemma broadcast_no_throw: "fst (broadcast d m st) = None"
  unfolding broadcast_def by (rule each_no_throw) (simp add: broadcast_one_eq)

lemma broadcast_frame:
  "docs (snd (broadcast d m st)) = docs st \<and> locked (snd (broadcast d m st)) = locked st \<and>
   clients (snd (broadcast d m st)) = clients st \<and>
   (\<forall>c. userMeta (sockets (snd (broadcast d m st)) c) = userMeta (sockets st c) \<and>
        state (sockets (snd (broadcast d m st)) c) = state (sockets st c) \<and>
        sendThrows (sockets (snd (broadcast d m st)) c) = sendThrows (sockets st c) \<and>
        pushed (sockets (snd (broadcast d m st)) c) = pushed (sockets st c) \<and>
        closeEmitted (sockets (snd (broadcast d m st)) c) = closeEmitted (sockets st c) \<and>
        writeCallbacks (sockets (snd (broadcast d m st)) c) = writeCallbacks (sockets st c))"
  unfolding broadcast_def
  by (rule each_preserve
        [where P = "\<lambda>s. docs s = docs st \<and> locked s = locked st \<and> clients s = clients st \<and>
                     (\<forall>c. userMeta (sockets s c) = userMeta (sockets st c) \<and>
                          state (sockets s c) = state (sockets st c) \<and>
                          sendThrows (sockets s c) = sendThrows (sockets st c) \<and>
                          pushed (sockets s c) = pushed (sockets st c) \<and>
                          closeEmitted (sockets s c) = closeEmitted (sockets st c) \<and>
                          writeCallbacks (sockets s c) = writeCallbacks (sockets st c))"])
     (auto simp: broadcast_one_eq)

lemmas broadcast_docs [simp] = broadcast_frame [THEN conjunct1]
lemmas broadcast_locked [simp] = broadcast_frame [THEN conjunct2, THEN conjunct1]
lemmas broadcast_clients [simp] = broadcast_frame [THEN conjunct2, THEN conjunct2, THEN conjunct1]

lemma broadcast_socket_fields [simp]:
  "userMeta (sockets (snd (broadcast d m st)) c) = userMeta (sockets st c)"
  "state (sockets (snd (broadcast d m st)) c) = state (sockets st c)"
  "sendThrows (sockets (snd (broadcast d m st)) c) = sendThrows (sockets st c)"
  "pushed (sockets (snd (broadcast d m st)) c) = pushed (sockets st c)"
  "closeEmitted (sockets (snd (broadcast d m st)) c) = closeEmitted (sockets st c)"
  "writeCallbacks (sockets (snd (broadcast d m st)) c) = writeCallbacks (sockets st c)"
  using broadcast_frame [of d m st] by simp_all


lemma broadcast_wire:
  "distinct (clients st) \<Longrightarrow>
   wire (sockets (snd (broadcast d m st)) c) =
     (if c \<in> set (clients st) \<and> attached d (sockets st c) \<and> \<not> sendThrows (sockets st c)
      then wire (sockets st c) @ [m] else wire (sockets st c))"
  by (simp add: broadcast_eq)

section \<open>Messages\<close>




lemma on_message_unparseable:
  "\<not> lock_check (sockets st c) st \<Longrightarrow> on_message c None st = (Some ReferenceError, st)"
  by (simp add: on_message_def Let_def)

lemma on_message_null:
  "\<not> lock_check (sockets st c) st \<Longrightarrow> on_message c (Some JNull) st = (Some TypeError, st)"
  by (simp add: on_message_def Let_def)

lemma on_message_forward:
  "\<not> lock_check (sockets st c) st \<Longrightarrow> data \<noteq> JNull \<Longrightarrow> \<not> truthy (get data ''registration'') \<Longrightarrow>
   on_message c (Some data) st = (None, stream_push c data st)"
  by (simp add: on_message_def Let_def)


lemma pair_eq: "fst p = None \<Longrightarrow> p = (None, snd p)"
  by (cases p) simp

lemma broadcast_pair: "broadcast d m st = (None, snd (broadcast d m st))"
  by (rule pair_eq) (rule broadcast_no_throw)




section \<open>Closes\<close>

lemma on_close_eq:
  "\<not> (truthy (userMeta (sockets st c)) \<and>
      beyond (to_key (meta_docId (sockets st c))) (to_key (meta_userId (sockets st c))) (docs st)) \<Longrightarrow>
   on_close c st =
     (None, end_stream c
        (if truthy (userMeta (sockets st c)) then
           snd (broadcast (meta_docId (sockets st c))
                  (Meta (map_of (release (to_key (meta_docId (sockets st c)))
                                   (to_key (meta_userId (sockets st c))) (docs st))
                           (to_key (meta_docId (sockets st c)))))
                  (st\<lparr>docs := release (to_key (meta_docId (sockets st c)))
                                 (to_key (meta_userId (sockets st c))) (docs st)\<rparr>))
         else st))"
proof (cases "truthy (userMeta (sockets st c))")
  case False
  then show ?thesis by (simp add: on_close_def Let_def)
next
  case True
  assume "\<not> (truthy (userMeta (sockets st c)) \<and>
      beyond (to_key (meta_docId (sockets st c))) (to_key (meta_userId (sockets st c))) (docs st))"
  with True have "\<not> beyond (to_key (meta_docId (sockets st c)))
      (to_key (meta_userId (sockets st c))) (docs st)" by simp
  with True show ?thesis
    unfolding on_close_def Let_def
    by (subst broadcast_pair) simp
qed

lemma end_stream_fields [simp]:
  "docs (end_stream c st) = docs st"
  "locked (end_stream c st) = locked st"
  "clients (end_stream c st) = clients st"
  "userMeta (sockets (end_stream c st) c') = userMeta (sockets st c')"
  "sendCalls (sockets (end_stream c st) c') = sendCalls (sockets st c')"
  "wire (sockets (end_stream c st) c') = wire (sockets st c')"
  "sendThrows (sockets (end_stream c st) c') = sendThrows (sockets st c')"
  by (simp_all add: end_stream_def stream_push_def Let_def)


lemma on_close_userMeta [simp]:
  "userMeta (sockets (snd (on_close c st)) c') = userMeta (sockets st c')"
proof (cases "truthy (userMeta (sockets st c)) \<and>
      beyond (to_key (meta_docId (sockets st c))) (to_key (meta_userId (sockets st c))) (docs st)")
  case True
  then show ?thesis by (simp add: on_close_def Let_def)
next
  case False
  then show ?thesis by (simp add: on_close_eq)
qed

lemma on_close_clients [simp]: "clients (snd (on_close c st)) = clients st"
proof (cases "truthy (userMeta (sockets st c)) \<and>
      beyond (to_key (meta_docId (sockets st c))) (to_key (meta_userId (sockets st c))) (docs st)")
  case True
  then show ?thesis by (simp add: on_close_def Let_def)
next
  case False
  then show ?thesis by (simp add: on_close_eq)
qed

lemma on_close_meta [simp]:
  "meta_docId (sockets (snd (on_close c st)) c') = meta_docId (sockets st c')"
  "meta_userId (sockets (snd (on_close c st)) c') = meta_userId (sockets st c')"
  by (simp_all add: meta_docId_def meta_userId_def)






section \<open>The scenarios, evaluated\<close>

lemmas scenario_defs =
  on_message_def on_registration_def on_close_def broadcast_def broadcast_one_def
  client_send_def attached_def lock_check_def meta_docId_def meta_userId_def
  stream_push_def end_stream_def register_def release_def
  has_def is_locked_def inherited_def beyond_def
  lock_doc_def send_fails_def lookup_def edit_def
  connect_def init_def new_client_def registration_def Let_def

lemma registration_meta:
  "truthy (Some (registration d u))"
  "get (registration d u) ''docId'' = Some (JStr d)"
  "get (registration d u) ''userId'' = Some (JStr u)"
  "truthy (get (registration d u) ''registration'')"
  by (simp_all add: registration_def)

lemma edit_facts: "edit \<noteq> JNull" "\<not> truthy (get edit ''registration'')"
  by (simp_all add: edit_def)


lemma one_tab_facts:
  "docs one_tab = [(''d1'', [(''A'', \<lparr>name = None, url = None, count = 1, gravatar = None\<rparr>)])]"
  "locked one_tab = {}"
  "clients one_tab = [0]"
  "userMeta (sockets one_tab 0) = Some (registration ''d1'' ''A'')"
  "pushed (sockets one_tab 0) = []"
  by (simp_all add: one_tab_def scenario_defs)




lemma four_sockets_facts:
  "clients four_sockets = [0, 1, 2, 3]"
  "userMeta (sockets four_sockets 0) = Some (registration ''d1'' ''A'')"
  "userMeta (sockets four_sockets 1) = Some (registration ''d1'' ''B'')"
  "userMeta (sockets four_sockets 2) = Some (registration ''d2'' ''C'')"
  "userMeta (sockets four_sockets 3) = None"
  "sendThrows (sockets four_sockets 0) = False"
  "sendThrows (sockets four_sockets 1) = True"
  "state (sockets four_sockets 0) = None"
  "state (sockets four_sockets 1) = None"
  by (simp_all add: four_sockets_def scenario_defs)

lemma meta_ids:
  "userMeta cl = Some (registration d u) \<Longrightarrow> meta_docId cl = Some (JStr d)"
  "userMeta cl = Some (registration d u) \<Longrightarrow> meta_userId cl = Some (JStr u)"
  "userMeta cl = None \<Longrightarrow> meta_docId cl = None"
  by (simp_all add: meta_docId_def meta_userId_def registration_meta)

section \<open>The claims\<close>

subsection \<open>C1: the presence count\<close>

text \<open>
  C1 fails on the code for a user id that names an inherited property. A socket connects
  to the fresh server and registers on d1 with the user id \<^verbatim>\<open>constructor\<close>. Line 169
  creates the map of d1; at line 174 \<^verbatim>\<open>docs['d1']['constructor']\<close> is the inherited
  function and truthy, so the \<^verbatim>\<open>else\<close> branch runs and no record is made. After one
  register and no release the pair has no record, and d1 has an entry with no user in
  it. The close of the session leaves that empty entry in the registry: line 216 is
  truthy again, \<^verbatim>\<open>count--\<close> gives \<^verbatim>\<open>NaN\<close>, and nothing is deleted.
\<close>

theorem inherited_user_leaks:
  "fst (on_message 0 (Some (registration ''d1'' ''constructor'')) (connect 0 init)) = None
   \<and> docs ghost_user = [(''d1'', [])]
   \<and> lookup (docs ghost_user) ''d1'' ''constructor'' = None
   \<and> fst (on_close 0 ghost_user) = None
   \<and> docs (snd (on_close 0 ghost_user)) = [(''d1'', [])]"
  by (simp add: ghost_user_def scenario_defs)

subsection \<open>C2: the lock gate\<close>

text \<open>
  C2 fails on the code at two inputs, with no document locked in either. User A, registered
  on d1, sends the message \<^verbatim>\<open>null\<close>: \<^verbatim>\<open>JSON.parse\<close> returns \<^verbatim>\<open>null\<close>, the read
  \<^verbatim>\<open>data.registration\<close> of line 163 throws a TypeError and nothing is pushed to the
  stream. User A, registered on the document id \<^verbatim>\<open>constructor\<close>, sends an edit: at line
  150 \<^verbatim>\<open>locked['constructor']\<close> is the inherited function and truthy, so the edit is
  dropped and a lock notice is broadcast.
\<close>

theorem edit_not_forwarded:
  "locked one_tab = {} \<and> truthy (userMeta (sockets one_tab 0))
   \<and> fst (on_message 0 (Some JNull) one_tab) = Some TypeError
   \<and> pushed (sockets (snd (on_message 0 (Some JNull) one_tab)) 0) = []
   \<and> locked ghost_lock = {} \<and> truthy (userMeta (sockets ghost_lock 0))
   \<and> edit \<noteq> JNull \<and> \<not> truthy (get edit ''registration'')
   \<and> fst (on_message 0 (Some edit) ghost_lock) = None
   \<and> pushed (sockets (snd (on_message 0 (Some edit) ghost_lock)) 0) = []
   \<and> sendCalls (sockets (snd (on_message 0 (Some edit) ghost_lock)) 0)
       = [Meta None, Lock, Lock]"
  by (simp add: ghost_lock_def one_tab_def scenario_defs)

subsection \<open>C3: who receives a broadcast\<close>



subsection \<open>C4: a payload that does not parse\<close>




subsection \<open>C5: the steps of a registration\<close>




subsection \<open>C6: closing twice\<close>




subsection \<open>C7: best-effort delivery\<close>

text \<open>
  C7. \<^verbatim>\<open>wss.broadcast\<close> never throws and leaves both registries as they are. Every
  socket of \<^verbatim>\<open>wss.clients\<close> attached to the document whose own \<^verbatim>\<open>send\<close> does not
  throw gets the message on the wire, whatever the state of the other sockets and
  whether or not their \<^verbatim>\<open>send\<close> throws. With no socket attached to the document the
  broadcast changes nothing at all.
\<close>

theorem broadcast_best_effort:
  assumes "distinct (clients st)"
  shows "fst (broadcast docId m st) = None
       \<and> docs (snd (broadcast docId m st)) = docs st
       \<and> locked (snd (broadcast docId m st)) = locked st
       \<and> (\<forall>c \<in> set (clients st).
            truthy (userMeta (sockets st c)) \<and> meta_docId (sockets st c) = docId
              \<and> \<not> sendThrows (sockets st c)
            \<longrightarrow> wire (sockets (snd (broadcast docId m st)) c) = wire (sockets st c) @ [m])
       \<and> ((\<forall>c \<in> set (clients st).
              \<not> (truthy (userMeta (sockets st c)) \<and> meta_docId (sockets st c) = docId))
            \<longrightarrow> snd (broadcast docId m st) = st)"
proof -
  have "(\<forall>c \<in> set (clients st).
              \<not> (truthy (userMeta (sockets st c)) \<and> meta_docId (sockets st c) = docId))
            \<longrightarrow> snd (broadcast docId m st) = st"
  proof
    assume a: "\<forall>c \<in> set (clients st).
              \<not> (truthy (userMeta (sockets st c)) \<and> meta_docId (sockets st c) = docId)"
    then have "(\<lambda>c. if c \<in> set (clients st) \<and> attached docId (sockets st c)
                     then snd (client_send m (sockets st c)) else sockets st c) = sockets st"
      by (auto simp: fun_eq_iff attached_iff)
    then show "snd (broadcast docId m st) = st"
      using assms by (simp add: broadcast_eq)
  qed
  then show ?thesis
    using assms by (simp add: broadcast_no_throw broadcast_wire attached_iff)
qed

theorem broadcast_best_effort_witness:
  "distinct (clients four_sockets)
   \<and> sendThrows (sockets four_sockets 1)
   \<and> fst (broadcast (Some (JStr ''d1'')) Lock four_sockets) = None
   \<and> 0 \<in> set (clients four_sockets) \<and> truthy (userMeta (sockets four_sockets 0))
   \<and> meta_docId (sockets four_sockets 0) = Some (JStr ''d1'')
   \<and> \<not> sendThrows (sockets four_sockets 0)
   \<and> wire (sockets (snd (broadcast (Some (JStr ''d1'')) Lock four_sockets)) 0)
       = wire (sockets four_sockets 0) @ [Lock]
   \<and> list_all (\<lambda>c. meta_docId (sockets four_sockets c) \<noteq> Some (JStr ''d9''))
         (clients four_sockets)
   \<and> snd (broadcast (Some (JStr ''d9'')) Lock four_sockets) = four_sockets"
proof -
  have h: "distinct (clients four_sockets)" by (simp add: four_sockets_facts)
  have a: "0 \<in> set (clients four_sockets)" "truthy (userMeta (sockets four_sockets 0))"
    "meta_docId (sockets four_sockets 0) = Some (JStr ''d1'')"
    "\<not> sendThrows (sockets four_sockets 0)"
    "sendThrows (sockets four_sockets 1)"
    by (simp_all add: four_sockets_facts meta_ids registration_meta del: One_nat_def)
  have n: "\<forall>c \<in> set (clients four_sockets).
         \<not> (truthy (userMeta (sockets four_sockets c))
            \<and> meta_docId (sockets four_sockets c) = Some (JStr ''d9''))"
    by (simp add: four_sockets_facts meta_ids del: One_nat_def)
  from broadcast_best_effort [OF h, of "Some (JStr ''d1'')" Lock] a
  have 1: "fst (broadcast (Some (JStr ''d1'')) Lock four_sockets) = None
     \<and> wire (sockets (snd (broadcast (Some (JStr ''d1'')) Lock four_sockets)) 0)
       = wire (sockets four_sockets 0) @ [Lock]"
    by blast
  from broadcast_best_effort [OF h, of "Some (JStr ''d9'')" Lock] n
  have 2: "snd (broadcast (Some (JStr ''d9'')) Lock four_sockets) = four_sockets"
    by blast
  have m: "list_all (\<lambda>c. meta_docId (sockets four_sockets c) \<noteq> Some (JStr ''d9''))
         (clients four_sockets)"
    by (simp add: four_sockets_facts meta_ids del: One_nat_def)
  from h a m 1 2 show ?thesis by blast
qed

subsection \<open>C8: writes of the engine\<close>

text \<open>
  C8. \<^verbatim>\<open>_write\<close> never throws and always calls its callback once. It passes the
  serialized record to \<^verbatim>\<open>send\<close> unless \<^verbatim>\<open>client.state\<close> is \<^verbatim>\<open>'closed'\<close>, and the
  record goes out on the raw connection exactly when, besides, \<^verbatim>\<open>send\<close> does not
  throw. That is when the connection is open: no line of the source assigns
  \<^verbatim>\<open>client.state\<close>, and the library's \<^verbatim>\<open>send\<close> throws on a socket that is not open.
  In every other case nothing goes out and the failure is swallowed. The registries and
  the other sockets are untouched.
\<close>

theorem stream_write_effect:
  "fst (stream_write c chunk st) = None
   \<and> writeCallbacks (sockets (snd (stream_write c chunk st)) c) = Suc (writeCallbacks (sockets st c))
   \<and> sendCalls (sockets (snd (stream_write c chunk st)) c) =
       (if state (sockets st c) \<noteq> Some ''closed''
        then sendCalls (sockets st c) @ [Chunk chunk] else sendCalls (sockets st c))
   \<and> wire (sockets (snd (stream_write c chunk st)) c) =
       (if state (sockets st c) \<noteq> Some ''closed'' \<and> \<not> sendThrows (sockets st c)
        then wire (sockets st c) @ [Chunk chunk] else wire (sockets st c))
   \<and> docs (snd (stream_write c chunk st)) = docs st
   \<and> locked (snd (stream_write c chunk st)) = locked st
   \<and> (\<forall>c'. c' \<noteq> c \<longrightarrow> sockets (snd (stream_write c chunk st)) c' = sockets st c')"
  by (simp add: stream_write_def Let_def)

theorem stream_write_effect_witness:
  "(1::nat) \<noteq> 0
   \<and> sockets (snd (stream_write 0 edit four_sockets)) 1 = sockets four_sockets 1
   \<and> state (sockets four_sockets 0) \<noteq> Some ''closed'' \<and> \<not> sendThrows (sockets four_sockets 0)
   \<and> wire (sockets (snd (stream_write 0 edit four_sockets)) 0)
       = wire (sockets four_sockets 0) @ [Chunk edit]
   \<and> sendThrows (sockets four_sockets 1)
   \<and> wire (sockets (snd (stream_write 1 edit four_sockets)) 1) = wire (sockets four_sockets 1)
   \<and> writeCallbacks (sockets (snd (stream_write 1 edit four_sockets)) 1)
       = Suc (writeCallbacks (sockets four_sockets 1))
   \<and> fst (stream_write 1 edit four_sockets) = None"
  using stream_write_effect [of 0 edit four_sockets] stream_write_effect [of 1 edit four_sockets]
  by (simp add: four_sockets_facts del: One_nat_def)

subsection \<open>C9: closing a session that never registered\<close>



subsection \<open>C10: registering again on another document\<close>




end
